theory Spec2Isabelle
  imports Complex_Main
begin

section \<open>Host values\<close>

text \<open>
  The validators consume a value of type \<^verbatim>\<open>unknown\<close>. A JavaScript number is a
  double: a finite value, a NaN or one of the two infinities. No validator computes with
  a number, so a finite value is kept as the rational it denotes.
\<close>

datatype number = Finite rat | NaN | PosInfinity | NegInfinity

text \<open>
  An input is a tree of JSON values: a plain object is the table of its own properties in
  insertion order, and its prototype is \<^verbatim>\<open>Object.prototype\<close>; an array is the sequence of
  its elements (a hole reads as \<^verbatim>\<open>undefined\<close>), and its prototype is \<^verbatim>\<open>Array.prototype\<close>.
  The two prototypes are values too, since a read of \<^verbatim>\<open>__proto__\<close> returns them. A function
  is an opaque atom named by the path that leads to it; symbols and big integers are
  opaque atoms as well.
\<close>

datatype jsval =
    Undefined
  | Null
  | Boolean bool
  | Number number
  | String string
  | Array "jsval list"
  | Object "(string \<times> jsval) list"
  | Function string
  | Symbol nat
  | BigInt int
  | ObjectPrototype
  | ArrayPrototype

text \<open>The host's \<^verbatim>\<open>typeof\<close> operator and \<^verbatim>\<open>instanceof Array\<close> test.\<close>

fun typeof :: "jsval \<Rightarrow> string" where
  "typeof Undefined = ''undefined''"
| "typeof Null = ''object''"
| "typeof (Boolean b) = ''boolean''"
| "typeof (Number n) = ''number''"
| "typeof (String s) = ''string''"
| "typeof (Array xs) = ''object''"
| "typeof (Object ps) = ''object''"
| "typeof (Function f) = ''function''"
| "typeof (Symbol s) = ''symbol''"
| "typeof (BigInt i) = ''bigint''"
| "typeof ObjectPrototype = ''object''"
| "typeof ArrayPrototype = ''object''"

text \<open>
  \<^verbatim>\<open>x instanceof Array\<close> holds when \<^verbatim>\<open>Array.prototype\<close> is on the prototype chain of
  \<^verbatim>\<open>x\<close>; the chain of \<^verbatim>\<open>Array.prototype\<close> itself starts at \<^verbatim>\<open>Object.prototype\<close>.
\<close>

fun instanceofArray :: "jsval \<Rightarrow> bool" where
  "instanceofArray (Array xs) = True"
| "instanceofArray _ = False"

text \<open>\<^verbatim>\<open>Utils.typeOf\<close> (src/utils.ts).\<close>

definition Utils_typeOf :: "jsval \<Rightarrow> string" where
  "Utils_typeOf data =
     (if instanceofArray data then ''array''
      else if data = Null then ''null''
      else typeof data)"

subsection \<open>Numeric strings\<close>

text \<open>The decimal numeral of a natural number, without leading zeros.\<close>

definition digitChar :: "nat \<Rightarrow> char" where
  "digitChar d = ''0123456789'' ! d"

function decimal :: "nat \<Rightarrow> string" where
  "decimal n = (if n < 10 then [digitChar n] else decimal (n div 10) @ [digitChar (n mod 10)])"
  by pat_completeness auto
termination
  by (relation "measure id") auto

text \<open>
  What a template literal prints for a number. An integer of magnitude up to
  \<open>2\<^sup>5\<^sup>3 - 1\<close> is printed as its decimal numeral, with a minus sign when negative. For
  every other finite value (a fraction, or a larger magnitude, where the host switches to
  rounded digits and to the exponent form) the digits are those of the host's
  floating-point conversion, which is a parameter of the model.
\<close>

definition isSafeInteger :: "rat \<Rightarrow> bool" where
  "isSafeInteger r = (of_int \<lfloor>r\<rfloor> = r \<and> \<bar>r\<bar> \<le> 9007199254740991)"

fun numberToString :: "(rat \<Rightarrow> string) \<Rightarrow> number \<Rightarrow> string" where
  "numberToString host NaN = ''NaN''"
| "numberToString host PosInfinity = ''Infinity''"
| "numberToString host NegInfinity = ''-Infinity''"
| "numberToString host (Finite r) =
     (if isSafeInteger r
      then (if r < 0 then ''-'' @ decimal (nat (- \<lfloor>r\<rfloor>)) else decimal (nat \<lfloor>r\<rfloor>))
      else host r)"

definition isDigit :: "char \<Rightarrow> bool" where
  "isDigit c = (48 \<le> (of_char c :: nat) \<and> (of_char c :: nat) \<le> 57)"

definition digitValue :: "char \<Rightarrow> int" where
  "digitValue c = of_char c - 48"

definition indexValue :: "string \<Rightarrow> int" where
  "indexValue s = foldl (\<lambda>n c. 10 * n + digitValue c) 0 s"

text \<open>
  A property key is an array index when it is the canonical decimal numeral of an integer
  in the range \<open>0 .. 2\<^sup>3\<^sup>2 - 2\<close>.
\<close>

definition isArrayIndex :: "string \<Rightarrow> bool" where
  "isArrayIndex key =
     (key \<noteq> [] \<and> list_all isDigit key \<and> (key = ''0'' \<or> hd key \<noteq> CHR ''0'')
      \<and> indexValue key < 4294967295)"

subsection \<open>Property access\<close>

text \<open>
  \<^verbatim>\<open>for (var key in fields)\<close> visits the keys that are array indices first, in ascending
  numeric order, and then every other key in insertion order. The members that a plain
  object inherits are not enumerable, so only the own keys are visited. The loop body
  reads \<^verbatim>\<open>fields[key]\<close> at once, which for an own key is the own value, so the
  enumeration carries the value with the key.
\<close>

definition forIn :: "(string \<times> 'a) list \<Rightarrow> (string \<times> 'a) list" where
  "forIn fields =
     sort_key (\<lambda>p. indexValue (fst p)) (filter (\<lambda>p. isArrayIndex (fst p)) fields)
     @ filter (\<lambda>p. \<not> isArrayIndex (fst p)) fields"

text \<open>
  The string-keyed members of \<^verbatim>\<open>Object.prototype\<close> and of \<^verbatim>\<open>Array.prototype\<close> (ECMAScript
  2023, with the legacy accessor helpers of its annex B). All are functions, except the
  accessor \<^verbatim>\<open>__proto__\<close> of \<^verbatim>\<open>Object.prototype\<close> and the \<^verbatim>\<open>length\<close> of
  \<^verbatim>\<open>Array.prototype\<close>.
\<close>

definition ObjectPrototype_methods :: "string list" where
  "ObjectPrototype_methods =
     [''constructor'', ''hasOwnProperty'', ''isPrototypeOf'', ''propertyIsEnumerable'',
      ''toLocaleString'', ''toString'', ''valueOf'',
      ''__defineGetter__'', ''__defineSetter__'', ''__lookupGetter__'', ''__lookupSetter__'']"

definition ArrayPrototype_methods :: "string list" where
  "ArrayPrototype_methods =
     [''at'', ''concat'', ''constructor'', ''copyWithin'', ''entries'', ''every'', ''fill'',
      ''filter'', ''find'', ''findIndex'', ''findLast'', ''findLastIndex'', ''flat'',
      ''flatMap'', ''forEach'', ''includes'', ''indexOf'', ''join'', ''keys'',
      ''lastIndexOf'', ''map'', ''pop'', ''push'', ''reduce'', ''reduceRight'', ''reverse'',
      ''shift'', ''slice'', ''some'', ''sort'', ''splice'', ''toLocaleString'',
      ''toReversed'', ''toSorted'', ''toSpliced'', ''toString'', ''unshift'', ''values'',
      ''with'']"

text \<open>The prototype of an object: what the getter of \<^verbatim>\<open>__proto__\<close> returns for it.\<close>

fun prototypeOf :: "jsval \<Rightarrow> jsval" where
  "prototypeOf (Object ps) = ObjectPrototype"
| "prototypeOf (Array xs) = ArrayPrototype"
| "prototypeOf ArrayPrototype = ObjectPrototype"
| "prototypeOf _ = Null"

text \<open>
  The read of \<^verbatim>\<open>key\<close> that reaches \<^verbatim>\<open>Object.prototype\<close>, and the one that reaches
  \<^verbatim>\<open>Array.prototype\<close>, on behalf of \<^verbatim>\<open>receiver\<close>.
\<close>

definition getObjectPrototype :: "string \<Rightarrow> jsval \<Rightarrow> jsval" where
  "getObjectPrototype key receiver =
     (if key = ''__proto__'' then prototypeOf receiver
      else if key \<in> set ObjectPrototype_methods then Function (''Object.prototype.'' @ key)
      else Undefined)"

definition getArrayPrototype :: "string \<Rightarrow> jsval \<Rightarrow> jsval" where
  "getArrayPrototype key receiver =
     (if key = ''length'' then Number (Finite 0)
      else if key \<in> set ArrayPrototype_methods then Function (''Array.prototype.'' @ key)
      else getObjectPrototype key receiver)"

text \<open>
  The read \<^verbatim>\<open>data[key]\<close> on a value that passed the object guard: the own property if
  there is one, and the inherited member otherwise. An array owns its indices and its
  \<^verbatim>\<open>length\<close>.
\<close>

fun getProp :: "jsval \<Rightarrow> string \<Rightarrow> jsval" where
  "getProp (Object ps) key =
     (case map_of ps key of Some v \<Rightarrow> v | None \<Rightarrow> getObjectPrototype key (Object ps))"
| "getProp (Array xs) key =
     (if key = ''length'' then Number (Finite (of_nat (length xs)))
      else if isArrayIndex key \<and> indexValue key < int (length xs) then xs ! nat (indexValue key)
      else getArrayPrototype key (Array xs))"
| "getProp ArrayPrototype key = getArrayPrototype key ArrayPrototype"
| "getProp ObjectPrototype key = getObjectPrototype key ObjectPrototype"
| "getProp _ key = Undefined"

section \<open>Result and Problem\<close>

datatype ('value, 'reason) result = Pass 'value | Fail 'reason

text \<open>The \<^verbatim>\<open>kind\<close> tag of a result.\<close>

fun kind :: "('value, 'reason) result \<Rightarrow> string" where
  "kind (Pass v) = ''pass''"
| "kind (Fail r) = ''fail''"

text \<open>
  \<^verbatim>\<open>Expectation = { expected, actual }\<close>, \<^verbatim>\<open>ProblemWithField = { field, problem }\<close>,
  \<^verbatim>\<open>ProblemWithIndex = { index, problem }\<close>, where \<^verbatim>\<open>index\<close> is a number.
\<close>

datatype problem =
    Expectation string string
  | ProblemWithField string problem
  | ProblemWithIndex number problem

text \<open>\<^verbatim>\<open>Problem.toString\<close>, given the host's conversion of the other numbers.\<close>

fun toString :: "(rat \<Rightarrow> string) \<Rightarrow> problem \<Rightarrow> string" where
  "toString host (Expectation expected actual) =
     ''Expected '' @ expected @ '', got '' @ actual @ ''.''"
| "toString host (ProblemWithField field p) =
     ''Problem with field '' @ [CHR 0x22] @ field @ [CHR 0x22] @ '': '' @ toString host p"
| "toString host (ProblemWithIndex index p) =
     ''Problem at index '' @ [CHR 0x22] @ numberToString host index @ [CHR 0x22] @ '': ''
     @ toString host p"

text \<open>
  The path of a problem, from the outside in, and the expectation at its end; the label
  that \<^verbatim>\<open>Problem.toString\<close> prints for one step of the path.
\<close>

datatype step = AtField string | AtIndex number

fun path :: "problem \<Rightarrow> step list" where
  "path (Expectation expected actual) = []"
| "path (ProblemWithField field p) = AtField field # path p"
| "path (ProblemWithIndex index p) = AtIndex index # path p"

fun innermost :: "problem \<Rightarrow> string \<times> string" where
  "innermost (Expectation expected actual) = (expected, actual)"
| "innermost (ProblemWithField field p) = innermost p"
| "innermost (ProblemWithIndex index p) = innermost p"

fun label :: "(rat \<Rightarrow> string) \<Rightarrow> step \<Rightarrow> string" where
  "label host (AtField field) = ''Problem with field '' @ [CHR 0x22] @ field @ [CHR 0x22] @ '': ''"
| "label host (AtIndex index) =
     ''Problem at index '' @ [CHR 0x22] @ numberToString host index @ [CHR 0x22] @ '': ''"

section \<open>Validated values\<close>

text \<open>
  What a validator passes with: a value handed over as it is (the input itself, or the
  literal \<^verbatim>\<open>undefined\<close>), the array \<^verbatim>\<open>values\<close> that the array validator builds, or the
  object \<^verbatim>\<open>obj\<close> that the object validator builds. A built object is its prototype and
  the table of its own properties; it starts as \<^verbatim>\<open>{}\<close>, with \<^verbatim>\<open>Object.prototype\<close> as its
  prototype.
\<close>

datatype validated =
    Val jsval
  | NewArray "validated list"
  | NewObject validated "(string \<times> validated) list"

text \<open>Whether a validated value is an object or \<^verbatim>\<open>null\<close>: what a prototype can be.\<close>

fun isObjectOrNull :: "validated \<Rightarrow> bool" where
  "isObjectOrNull (Val v) = (typeof v = ''object'' \<or> typeof v = ''function'')"
| "isObjectOrNull (NewArray ys) = True"
| "isObjectOrNull (NewObject proto ps) = True"

text \<open>
  The write \<^verbatim>\<open>obj[key] = value\<close> on the object under construction, given as its prototype
  and its own properties. The key \<^verbatim>\<open>__proto__\<close> reaches the setter that \<^verbatim>\<open>obj\<close> inherits
  from \<^verbatim>\<open>Object.prototype\<close>: no own property is created, and the prototype of \<^verbatim>\<open>obj\<close> is
  replaced when the value is an object or \<^verbatim>\<open>null\<close>. Every other key becomes an own
  property. The loop writes each key once.
\<close>

fun putOwn :: "(string \<times> 'a) list \<Rightarrow> string \<Rightarrow> 'a \<Rightarrow> (string \<times> 'a) list" where
  "putOwn [] key value = [(key, value)]"
| "putOwn (p # ps) key value =
     (if fst p = key then (key, value) # ps else p # putOwn ps key value)"

fun setProp ::
  "validated \<times> (string \<times> validated) list \<Rightarrow> string \<Rightarrow> validated
   \<Rightarrow> validated \<times> (string \<times> validated) list" where
  "setProp (proto, ps) key value =
     (if key = ''__proto__''
      then (if isObjectOrNull value then (value, ps) else (proto, ps))
      else (proto, putOwn ps key value))"

text \<open>
  The structure of a validated value as a plain value: its elements and own properties,
  without the identity of a built array or object and without its prototype.
\<close>

fun erase :: "validated \<Rightarrow> jsval" where
  "erase (Val v) = v"
| "erase (NewArray ys) = Array (map erase ys)"
| "erase (NewObject proto ps) = Object (map (\<lambda>(k, y). (k, erase y)) ps)"

section \<open>Validators\<close>

text \<open>
  \<^verbatim>\<open>toValidator\<close> closes over \<^verbatim>\<open>toResult\<close>; the object it returns has the two methods
  \<^verbatim>\<open>run\<close> and \<^verbatim>\<open>worksWith\<close>, which only call that closure. A validator is therefore its
  captured \<^verbatim>\<open>toResult\<close>, and the methods are functions of it. \<^verbatim>\<open>run\<close> is used at several
  handler result types, so it stays polymorphic.
\<close>

datatype validator = Validator "jsval \<Rightarrow> (validated, problem) result"

definition toValidator :: "(jsval \<Rightarrow> (validated, problem) result) \<Rightarrow> validator" where
  "toValidator toResult = Validator toResult"

fun toResult :: "validator \<Rightarrow> jsval \<Rightarrow> (validated, problem) result" where
  "toResult (Validator f) data = f data"

definition run :: "validator \<Rightarrow> jsval \<Rightarrow> (validated \<Rightarrow> 'a) \<Rightarrow> (problem \<Rightarrow> 'a) \<Rightarrow> 'a" where
  "run v data onPass onFail =
     (case toResult v data of
        Pass value \<Rightarrow> onPass value
      | Fail reason \<Rightarrow> onFail reason)"

definition worksWith :: "validator \<Rightarrow> jsval \<Rightarrow> bool" where
  "worksWith v data = (kind (toResult v data) = ''pass'')"

subsection \<open>Primitives\<close>

definition expecting :: "string \<Rightarrow> jsval \<Rightarrow> (validated, problem) result" where
  "expecting expected data =
     (if typeof data = expected then Pass (Val data)
      else Fail (Expectation expected (Utils_typeOf data)))"

definition expectingNull :: "jsval \<Rightarrow> (validated, problem) result" where
  "expectingNull data =
     (if data = Null then Pass (Val data)
      else Fail (Expectation ''null'' (Utils_typeOf data)))"

subsection \<open>Array\<close>

text \<open>
  The loop of \<^verbatim>\<open>expectingArray\<close>. Its mutable locals are \<^verbatim>\<open>values\<close> and \<^verbatim>\<open>reason\<close>; each
  handler returns the locals as it leaves them. A problem is an object, hence truthy:
  \<^verbatim>\<open>if (reason)\<close> holds exactly when \<^verbatim>\<open>reason\<close> has been assigned. The counter \<^verbatim>\<open>index\<close>
  is a number; it stays below the length of the array.
\<close>

function arrayLoop ::
  "validator \<Rightarrow> jsval list \<Rightarrow> nat \<Rightarrow> validated list \<Rightarrow> (validated, problem) result" where
  "arrayLoop v data index values =
     (if index < length data then
        (case run v (data ! index)
                (\<lambda>value. (values @ [value], None))
                (\<lambda>reason'. (values, Some reason')) of
           (values', Some reason) \<Rightarrow> Fail (ProblemWithIndex (Finite (of_nat index)) reason)
         | (values', None) \<Rightarrow> arrayLoop v data (Suc index) values')
      else Pass (NewArray values))"
  by pat_completeness auto
termination
  by (relation "measure (\<lambda>(v, data, index, values). length data - index)") auto

definition expectingArray :: "validator \<Rightarrow> jsval \<Rightarrow> (validated, problem) result" where
  "expectingArray v data =
     (case data of
        Array xs \<Rightarrow> arrayLoop v xs 0 []
      | _ \<Rightarrow> Fail (Expectation ''array'' (Utils_typeOf data)))"

subsection \<open>Optional\<close>

definition expectingOptional :: "validator \<Rightarrow> jsval \<Rightarrow> (validated, problem) result" where
  "expectingOptional v data =
     run v data (\<lambda>value. Pass value) (\<lambda>_. Pass (Val Undefined))"

subsection \<open>Object\<close>

text \<open>
  The loop of \<^verbatim>\<open>expectingObject\<close> over the enumeration of \<^verbatim>\<open>fields\<close>, with the locals
  \<^verbatim>\<open>obj\<close> and \<^verbatim>\<open>reason\<close>.
\<close>

fun objectLoop ::
  "jsval \<Rightarrow> (string \<times> validator) list \<Rightarrow> validated \<times> (string \<times> validated) list
   \<Rightarrow> (validated, problem) result" where
  "objectLoop data [] obj = Pass (NewObject (fst obj) (snd obj))"
| "objectLoop data ((key, v) # rest) obj =
     (case run v (getProp data key)
             (\<lambda>value. (setProp obj key value, None))
             (\<lambda>reason'. (obj, Some reason')) of
        (obj', Some reason) \<Rightarrow> Fail (ProblemWithField key reason)
      | (obj', None) \<Rightarrow> objectLoop data rest obj')"

definition expectingObject :: "(string \<times> validator) list \<Rightarrow> jsval \<Rightarrow> (validated, problem) result" where
  "expectingObject fields data =
     (if typeof data \<noteq> ''object'' \<or> data = Null
      then Fail (Expectation ''object'' (Utils_typeOf data))
      else objectLoop data (forIn fields) (Val ObjectPrototype, []))"

subsection \<open>The factory \<^verbatim>\<open>Expect\<close>\<close>

definition Expect_boolean :: validator where
  "Expect_boolean = toValidator (expecting ''boolean'')"

definition Expect_number :: validator where
  "Expect_number = toValidator (expecting ''number'')"

definition Expect_string :: validator where
  "Expect_string = toValidator (expecting ''string'')"

definition Expect_null :: validator where
  "Expect_null = toValidator expectingNull"

definition Expect_object :: "(string \<times> validator) list \<Rightarrow> validator" where
  "Expect_object fields = toValidator (expectingObject fields)"

definition Expect_array :: "validator \<Rightarrow> validator" where
  "Expect_array v = toValidator (expectingArray v)"

definition Expect_optional :: "validator \<Rightarrow> validator" where
  "Expect_optional v = toValidator (expectingOptional v)"

subsection \<open>Validators built from the factory\<close>

text \<open>
  A validator built from the factory is the value of an expression over the members of
  \<^verbatim>\<open>Expect\<close>: the four primitives, and \<^verbatim>\<open>object\<close>, \<^verbatim>\<open>array\<close> and \<^verbatim>\<open>optional\<close> applied to
  such expressions, nested to any depth.
\<close>

datatype expect =
    EBoolean
  | ENumber
  | EString
  | ENull
  | EObject "(string \<times> expect) list"
  | EArray expect
  | EOptional expect

fun validatorOf :: "expect \<Rightarrow> validator" where
  "validatorOf EBoolean = Expect_boolean"
| "validatorOf ENumber = Expect_number"
| "validatorOf EString = Expect_string"
| "validatorOf ENull = Expect_null"
| "validatorOf (EObject fields) = Expect_object (map (\<lambda>(k, e). (k, validatorOf e)) fields)"
| "validatorOf (EArray e) = Expect_array (validatorOf e)"
| "validatorOf (EOptional e) = Expect_optional (validatorOf e)"

text \<open>
  The descriptors of an expression are well formed when their names are distinct, as the
  keys of an object are, and none is \<^verbatim>\<open>__proto__\<close>.
\<close>

fun wellFormed :: "expect \<Rightarrow> bool" where
  "wellFormed (EObject fields) =
     (distinct (map fst fields) \<and> ''__proto__'' \<notin> set (map fst fields)
      \<and> list_all (\<lambda>(k, e). wellFormed e) fields)"
| "wellFormed (EArray e) = wellFormed e"
| "wellFormed (EOptional e) = wellFormed e"
| "wellFormed _ = True"

text \<open>
  \<open>accepted e out data\<close>: the validated value \<open>out\<close> is the substructure of the input
  \<open>data\<close> that the expression \<open>e\<close> accepts. For a primitive it is the input itself. For
  an array it is a new array of the length of the input, each element the accepted
  substructure of the input's element at the same index. For an object it is a new plain
  object with exactly the declared names, in the order of the enumeration, each holding
  the accepted substructure of what the input reads under that name. For
  \<^verbatim>\<open>optional(v)\<close> it is the substructure that \<^verbatim>\<open>v\<close> accepts when \<^verbatim>\<open>v\<close> passes on the input,
  and \<^verbatim>\<open>undefined\<close> when \<^verbatim>\<open>v\<close> rejects it.
\<close>

fun accepted :: "expect \<Rightarrow> validated \<Rightarrow> jsval \<Rightarrow> bool" where
  "accepted (EObject fields) out data =
     (case out of
        NewObject proto ps \<Rightarrow>
          proto = Val ObjectPrototype \<and> typeof data = ''object'' \<and> data \<noteq> Null
          \<and> map fst ps = map fst (forIn fields)
          \<and> list_all (\<lambda>(k, e). case map_of ps k of
                                  Some y \<Rightarrow> accepted e y (getProp data k)
                                | None \<Rightarrow> False) fields
      | _ \<Rightarrow> False)"
| "accepted (EArray e) out data =
     (case out of
        NewArray ys \<Rightarrow> (case data of Array xs \<Rightarrow> list_all2 (accepted e) ys xs | _ \<Rightarrow> False)
      | _ \<Rightarrow> False)"
| "accepted (EOptional e) out data =
     (if worksWith (validatorOf e) data then accepted e out data else out = Val Undefined)"
| "accepted e out data = (out = Val data)"

text \<open>
  The expressions whose validator hands back the whole structure of its input: the
  primitives, and arrays of such expressions.
\<close>

fun returnsInput :: "expect \<Rightarrow> bool" where
  "returnsInput (EObject fields) = False"
| "returnsInput (EArray e) = returnsInput e"
| "returnsInput (EOptional e) = False"
| "returnsInput _ = True"

section \<open>Basic facts\<close>

declare arrayLoop.simps [simp del]
declare decimal.simps [simp del]

lemma toResult_toValidator [simp]: "toResult (toValidator f) data = f data"
  by (simp add: toValidator_def)

lemma worksWith_iff: "worksWith v data \<longleftrightarrow> (\<exists>value. toResult v data = Pass value)"
  by (cases "toResult v data") (simp_all add: worksWith_def)

lemma typeof_primitive_iff:
  "typeof data = ''boolean'' \<longleftrightarrow> Utils_typeOf data = ''boolean''"
  "typeof data = ''number'' \<longleftrightarrow> Utils_typeOf data = ''number''"
  "typeof data = ''string'' \<longleftrightarrow> Utils_typeOf data = ''string''"
  by (cases data; simp add: Utils_typeOf_def)+

lemma typeOf_null_iff: "data = Null \<longleftrightarrow> Utils_typeOf data = ''null''"
  by (cases data) (simp_all add: Utils_typeOf_def)

lemma primitive_Pass_D:
  "expecting expected data = Pass out \<Longrightarrow> out = Val data \<and> typeof data = expected"
  "expectingNull data = Pass out \<Longrightarrow> out = Val data \<and> data = Null"
  by (auto simp: expecting_def expectingNull_def split: if_splits)

lemma isArrayIndex_examples:
  "\<not> isArrayIndex ''a''" "\<not> isArrayIndex ''b''" "\<not> isArrayIndex ''c''"
  "\<not> isArrayIndex ''length''" "\<not> isArrayIndex ''constructor''" "\<not> isArrayIndex ''__proto__''"
  "isArrayIndex ''1''"
  by (simp_all add: isArrayIndex_def isDigit_def indexValue_def digitValue_def)

lemma list_all2_in_set1:
  "list_all2 R xs ys \<Longrightarrow> x \<in> set xs \<Longrightarrow> \<exists>y\<in>set ys. R x y"
  by (induction rule: list_all2_induct) auto

lemma list_all2_swap_imp:
  "list_all2 P xs ys \<Longrightarrow> (\<And>x y. x \<in> set xs \<Longrightarrow> P x y \<Longrightarrow> Q y x) \<Longrightarrow> list_all2 Q ys xs"
  by (induction rule: list_all2_induct) auto

section \<open>Primitives\<close>

text \<open>
  Claim C2. For each of the four primitive validators and every input, \<^verbatim>\<open>worksWith\<close> holds
  exactly when \<^verbatim>\<open>Utils.typeOf\<close> of the input is the validator's expected name. So
  \<^verbatim>\<open>undefined\<close> satisfies no primitive, the string \<^verbatim>\<open>"12"\<close> does not satisfy
  \<^verbatim>\<open>number\<close>, none of \<^verbatim>\<open>0\<close>, \<^verbatim>\<open>false\<close> and \<^verbatim>\<open>null\<close> satisfies the validator of
  another, and NaN and both infinities satisfy \<^verbatim>\<open>number\<close>.
\<close>

theorem primitives_worksWith_iff_typeOf:
  "(worksWith Expect_boolean data \<longleftrightarrow> Utils_typeOf data = ''boolean'')
   \<and> (worksWith Expect_number data \<longleftrightarrow> Utils_typeOf data = ''number'')
   \<and> (worksWith Expect_string data \<longleftrightarrow> Utils_typeOf data = ''string'')
   \<and> (worksWith Expect_null data \<longleftrightarrow> Utils_typeOf data = ''null'')
   \<and> \<not> worksWith Expect_boolean Undefined \<and> \<not> worksWith Expect_number Undefined
   \<and> \<not> worksWith Expect_string Undefined \<and> \<not> worksWith Expect_null Undefined
   \<and> \<not> worksWith Expect_number (String ''12'')
   \<and> \<not> worksWith Expect_boolean (Number (Finite 0)) \<and> \<not> worksWith Expect_null (Number (Finite 0))
   \<and> \<not> worksWith Expect_number (Boolean False) \<and> \<not> worksWith Expect_null (Boolean False)
   \<and> \<not> worksWith Expect_boolean Null \<and> \<not> worksWith Expect_number Null
   \<and> worksWith Expect_number (Number NaN)
   \<and> worksWith Expect_number (Number PosInfinity)
   \<and> worksWith Expect_number (Number NegInfinity)"
proof -
  have prim: "worksWith (toValidator (expecting expected)) data \<longleftrightarrow> typeof data = expected"
    for expected
    by (simp add: worksWith_def expecting_def)
  have nul: "worksWith (toValidator expectingNull) d \<longleftrightarrow> d = Null" for d
    by (simp add: worksWith_def expectingNull_def)
  show ?thesis
    unfolding Expect_boolean_def Expect_number_def Expect_string_def Expect_null_def
    by (simp add: prim nul typeof_primitive_iff [symmetric] typeOf_null_iff [symmetric]
        worksWith_def expecting_def expectingNull_def)
qed

section \<open>The wrapper: \<^verbatim>\<open>run\<close> and \<^verbatim>\<open>worksWith\<close>\<close>

text \<open>
  Claim C9. The \<^verbatim>\<open>toResult\<close> of the validator that \<^verbatim>\<open>toValidator\<close> builds is the function
  it was given. \<^verbatim>\<open>worksWith(data)\<close> holds exactly when \<^verbatim>\<open>toResult(data)\<close> is a pass.
  \<^verbatim>\<open>run\<close> returns what \<^verbatim>\<open>onPass\<close> returns on the validated value when \<^verbatim>\<open>toResult\<close> passes,
  and what \<^verbatim>\<open>onFail\<close> returns on the problem when it fails. With handlers that append
  their call to a log, the log of one \<^verbatim>\<open>run\<close> holds exactly one call.
\<close>

theorem run_and_worksWith_classify:
  "toResult (toValidator f) data = f data
   \<and> (worksWith v data \<longleftrightarrow> (\<exists>value. toResult v data = Pass value))
   \<and> run v data onPass onFail =
       (case toResult v data of Pass value \<Rightarrow> onPass value | Fail reason \<Rightarrow> onFail reason)
   \<and> run v data (\<lambda>value calls. calls @ [Inl value]) (\<lambda>reason calls. calls @ [Inr reason]) []
       = (case toResult v data of Pass value \<Rightarrow> [Inl value] | Fail reason \<Rightarrow> [Inr reason])
   \<and> length (run v data (\<lambda>value calls. calls @ [Inl value]) (\<lambda>reason calls. calls @ [Inr reason]) [])
       = 1"
  by (cases "toResult v data") (simp_all add: worksWith_iff run_def)

section \<open>Optional\<close>

text \<open>
  Claim C6. \<^verbatim>\<open>optional(v)\<close> passes on every input: with the value of \<^verbatim>\<open>v\<close> when \<^verbatim>\<open>v\<close>
  passes, and with \<^verbatim>\<open>undefined\<close> when \<^verbatim>\<open>v\<close> fails, whatever the problem is. It never
  fails, \<^verbatim>\<open>worksWith\<close> holds for every input, and \<^verbatim>\<open>run\<close> only ever calls \<^verbatim>\<open>onPass\<close>.
\<close>

theorem optional_validator_never_fails:
  "toResult (Expect_optional v) data =
     Pass (case toResult v data of Pass value \<Rightarrow> value | Fail reason \<Rightarrow> Val Undefined)
   \<and> (\<forall>reason. toResult (Expect_optional v) data \<noteq> Fail reason)
   \<and> worksWith (Expect_optional v) data
   \<and> run (Expect_optional v) data onPass onFail =
       onPass (case toResult v data of Pass value \<Rightarrow> value | Fail reason \<Rightarrow> Val Undefined)"
  by (cases "toResult v data")
     (simp_all add: Expect_optional_def expectingOptional_def run_def worksWith_def)

text \<open>
  Claim C10. Wrapping a validator in \<^verbatim>\<open>optional\<close> twice gives the outcome of wrapping it
  once, on every input: a pass with the value of \<^verbatim>\<open>v\<close> when \<^verbatim>\<open>v\<close> passes, and a pass with
  \<^verbatim>\<open>undefined\<close> otherwise. The two validators are the same validator.
\<close>

theorem optional_validator_idempotent:
  "toResult (Expect_optional (Expect_optional v)) data = toResult (Expect_optional v) data
   \<and> Expect_optional (Expect_optional v) = Expect_optional v
   \<and> toResult (Expect_optional (Expect_optional v)) data =
       Pass (case toResult v data of Pass value \<Rightarrow> value | Fail reason \<Rightarrow> Val Undefined)"
proof -
  have "expectingOptional (toValidator (expectingOptional v)) d = expectingOptional v d" for d
    by (cases "toResult v d") (simp_all add: expectingOptional_def run_def)
  then have eq: "expectingOptional (toValidator (expectingOptional v)) = expectingOptional v"
    by (rule ext)
  show ?thesis
    by (cases "toResult v data")
       (simp_all add: Expect_optional_def eq expectingOptional_def run_def)
qed

section \<open>Rendering a problem\<close>

lemma digit_cases:
  "d < 10 \<Longrightarrow> d = 0 \<or> d = 1 \<or> d = 2 \<or> d = 3 \<or> d = 4 \<or> d = 5 \<or> d = 6 \<or> d = 7 \<or> d = 8 \<or> d = (9::nat)"
  by arith

lemma digitChar_facts:
  assumes "d < 10"
  shows "digitValue (digitChar d) = int d" and "isDigit (digitChar d)"
    and "d \<noteq> 0 \<Longrightarrow> digitChar d \<noteq> CHR ''0''"
  using digit_cases [OF assms]
  by (auto simp: digitChar_def digitValue_def isDigit_def)

lemma indexValue_snoc: "indexValue (s @ [c]) = 10 * indexValue s + digitValue c"
  by (simp add: indexValue_def)

lemma decimal_not_Nil: "decimal n \<noteq> []"
  by (subst decimal.simps) simp

lemma indexValue_decimal: "indexValue (decimal n) = int n"
proof (induction n rule: decimal.induct)
  case (1 n)
  show ?case
  proof (cases "n < 10")
    case True
    then show ?thesis
      by (subst decimal.simps) (simp add: indexValue_def digitChar_facts)
  next
    case False
    with 1 have "indexValue (decimal (n div 10)) = int (n div 10)" by simp
    moreover have "digitValue (digitChar (n mod 10)) = int (n mod 10)"
      by (simp add: digitChar_facts)
    ultimately have "indexValue (decimal (n div 10) @ [digitChar (n mod 10)]) = int n"
      by (simp add: indexValue_snoc zdiv_int zmod_int)
    with False show ?thesis by (subst decimal.simps) simp
  qed
qed

lemma isDigit_decimal: "list_all isDigit (decimal n)"
proof (induction n rule: decimal.induct)
  case (1 n)
  show ?case
  proof (cases "n < 10")
    case True
    then show ?thesis by (subst decimal.simps) (simp add: digitChar_facts)
  next
    case False
    with 1 have "list_all isDigit (decimal (n div 10))" by simp
    with False show ?thesis by (subst decimal.simps) (simp add: digitChar_facts)
  qed
qed

lemma hd_decimal: "n \<noteq> 0 \<Longrightarrow> hd (decimal n) \<noteq> CHR ''0''"
proof (induction n rule: decimal.induct)
  case (1 n)
  show ?case
  proof (cases "n < 10")
    case True
    with "1.prems" show ?thesis by (subst decimal.simps) (simp add: digitChar_facts)
  next
    case False
    then have "n div 10 \<noteq> 0" by simp
    with 1 False have "hd (decimal (n div 10)) \<noteq> CHR ''0''" by simp
    with False show ?thesis by (subst decimal.simps) (simp add: decimal_not_Nil)
  qed
qed

lemma decimal_zero: "decimal 0 = ''0''"
  by (subst decimal.simps) (simp add: digitChar_def)

lemma isSafeInteger_of_nat: "isSafeInteger (of_nat n) \<longleftrightarrow> n \<le> 9007199254740991"
proof -
  have "\<bar>rat_of_nat n\<bar> \<le> 9007199254740991 \<longleftrightarrow> rat_of_nat n \<le> rat_of_nat 9007199254740991"
    by simp
  also have "\<dots> \<longleftrightarrow> n \<le> 9007199254740991"
    by (rule of_nat_le_iff)
  finally show ?thesis by (simp add: isSafeInteger_def)
qed

lemma integral_minus: "of_int \<lfloor>- r\<rfloor> = - r \<Longrightarrow> of_int \<lfloor>r\<rfloor> = (r::rat)"
proof -
  assume a: "of_int \<lfloor>- r\<rfloor> = - r"
  define k where "k = - \<lfloor>- r\<rfloor>"
  have "(of_int k :: rat) = - of_int \<lfloor>- r\<rfloor>"
    unfolding k_def by (rule of_int_minus)
  also have "\<dots> = - (- r)" by (simp only: a)
  finally have "r = of_int k" by simp
  then show ?thesis by simp
qed

lemma isSafeInteger_minus: "isSafeInteger (- r) = isSafeInteger r"
  using integral_minus [of r] integral_minus [of "- r"]
  by (auto simp: isSafeInteger_def)

lemma numberToString_index:
  "n \<le> 9007199254740991 \<Longrightarrow> numberToString host (Finite (of_nat n)) = decimal n"
  by (simp add: isSafeInteger_of_nat)

lemma numberToString_negative:
  assumes "0 < n" and "n \<le> 9007199254740991"
  shows "numberToString host (Finite (- of_nat n)) = ''-'' @ decimal n"
proof -
  have "\<lfloor>- rat_of_nat n\<rfloor> = - int n"
    by (metis floor_of_int of_int_minus of_int_of_nat_eq)
  with assms show ?thesis
    by (simp add: isSafeInteger_minus isSafeInteger_of_nat)
qed

lemma toString_path:
  "toString host p =
     concat (map (label host) (path p))
     @ ''Expected '' @ fst (innermost p) @ '', got '' @ snd (innermost p) @ ''.''"
  by (induction p) simp_all

text \<open>
  Claim C7. For every problem, \<^verbatim>\<open>Problem.toString\<close> renders an expectation as
  \<^verbatim>\<open>Expected E, got A.\<close>, a field problem as \<^verbatim>\<open>Problem with field "F": \<close> followed by the
  rendering of the inner problem, and an index problem as \<^verbatim>\<open>Problem at index "I": \<close>
  followed by the rendering of the inner problem. To any depth, the rendering is the
  labels of the path from the outside in, followed by the innermost expectation. The index
  \<^verbatim>\<open>I\<close> is printed as a template literal prints a number: for an integer of magnitude up
  to \<open>2\<^sup>5\<^sup>3 - 1\<close>, and so for the counter of the array loop, it is the decimal numeral
  (digits only, no leading zero, denoting that integer), with a minus sign when negative;
  NaN and the infinities print by name. The field problem for \<^verbatim>\<open>age\<close> around the
  expectation of a number that got a string renders as
  \<^verbatim>\<open>Problem with field "age": Expected number, got string.\<close>
\<close>

theorem toString_format:
  "toString host (Expectation expected actual) = ''Expected '' @ expected @ '', got '' @ actual @ ''.''
   \<and> toString host (ProblemWithField field p) =
       ''Problem with field '' @ [CHR 0x22] @ field @ [CHR 0x22] @ '': '' @ toString host p
   \<and> toString host (ProblemWithIndex index p) =
       ''Problem at index '' @ [CHR 0x22] @ numberToString host index @ [CHR 0x22] @ '': ''
       @ toString host p
   \<and> toString host p =
       concat (map (label host) (path p))
       @ ''Expected '' @ fst (innermost p) @ '', got '' @ snd (innermost p) @ ''.''
   \<and> (n \<le> 9007199254740991 \<longrightarrow> numberToString host (Finite (of_nat n)) = decimal n)
   \<and> (0 < n \<and> n \<le> 9007199254740991 \<longrightarrow>
        numberToString host (Finite (- of_nat n)) = ''-'' @ decimal n)
   \<and> indexValue (decimal n) = int n \<and> list_all isDigit (decimal n)
   \<and> (decimal n = ''0'' \<or> hd (decimal n) \<noteq> CHR ''0'')
   \<and> numberToString host NaN = ''NaN''
   \<and> numberToString host PosInfinity = ''Infinity''
   \<and> numberToString host NegInfinity = ''-Infinity''
   \<and> toString host (ProblemWithField ''age'' (Expectation ''number'' ''string'')) =
       ''Problem with field '' @ [CHR 0x22] @ ''age'' @ [CHR 0x22] @ '': Expected number, got string.''
   \<and> toString host (ProblemWithIndex (Finite 0) (Expectation ''number'' ''null'')) =
       ''Problem at index '' @ [CHR 0x22] @ ''0'' @ [CHR 0x22] @ '': Expected number, got null.''
   \<and> toString host (ProblemWithIndex (Finite 12) (ProblemWithField ''age''
         (Expectation ''number'' ''string''))) =
       ''Problem at index '' @ [CHR 0x22] @ ''12'' @ [CHR 0x22] @ '': Problem with field ''
         @ [CHR 0x22] @ ''age'' @ [CHR 0x22] @ '': Expected number, got string.''
   \<and> toString host (ProblemWithField ''rows'' (ProblemWithIndex (Finite 305)
         (Expectation ''string'' ''undefined''))) =
       ''Problem with field '' @ [CHR 0x22] @ ''rows'' @ [CHR 0x22] @ '': Problem at index ''
         @ [CHR 0x22] @ ''305'' @ [CHR 0x22] @ '': Expected string, got undefined.''"
proof -
  have zero: "decimal n = ''0'' \<or> hd (decimal n) \<noteq> CHR ''0''"
    by (cases "n = 0") (simp_all add: decimal_zero hd_decimal)
  have ex: "numberToString host (Finite 0) = ''0''" "numberToString host (Finite 12) = ''12''"
    "numberToString host (Finite 305) = ''305''"
    by (simp_all add: isSafeInteger_def decimal.simps digitChar_def)
  have examples:
    "toString host (ProblemWithField ''age'' (Expectation ''number'' ''string'')) =
       ''Problem with field '' @ [CHR 0x22] @ ''age'' @ [CHR 0x22] @ '': Expected number, got string.''"
    "toString host (ProblemWithIndex (Finite 0) (Expectation ''number'' ''null'')) =
       ''Problem at index '' @ [CHR 0x22] @ ''0'' @ [CHR 0x22] @ '': Expected number, got null.''"
    "toString host (ProblemWithIndex (Finite 12) (ProblemWithField ''age''
         (Expectation ''number'' ''string''))) =
       ''Problem at index '' @ [CHR 0x22] @ ''12'' @ [CHR 0x22] @ '': Problem with field ''
         @ [CHR 0x22] @ ''age'' @ [CHR 0x22] @ '': Expected number, got string.''"
    "toString host (ProblemWithField ''rows'' (ProblemWithIndex (Finite 305)
         (Expectation ''string'' ''undefined''))) =
       ''Problem with field '' @ [CHR 0x22] @ ''rows'' @ [CHR 0x22] @ '': Problem at index ''
         @ [CHR 0x22] @ ''305'' @ [CHR 0x22] @ '': Expected string, got undefined.''"
    by (simp_all only: toString.simps ex) simp_all
  have eqs:
    "toString host (Expectation expected actual) = ''Expected '' @ expected @ '', got '' @ actual @ ''.''"
    "toString host (ProblemWithField field p) =
       ''Problem with field '' @ [CHR 0x22] @ field @ [CHR 0x22] @ '': '' @ toString host p"
    "toString host (ProblemWithIndex index p) =
       ''Problem at index '' @ [CHR 0x22] @ numberToString host index @ [CHR 0x22] @ '': ''
       @ toString host p"
    by simp_all
  have nums:
    "n \<le> 9007199254740991 \<longrightarrow> numberToString host (Finite (of_nat n)) = decimal n"
    "0 < n \<and> n \<le> 9007199254740991 \<longrightarrow>
        numberToString host (Finite (- of_nat n)) = ''-'' @ decimal n"
    "numberToString host NaN = ''NaN''"
    "numberToString host PosInfinity = ''Infinity''"
    "numberToString host NegInfinity = ''-Infinity''"
    by (simp_all add: numberToString_index numberToString_negative del: numberToString.simps(4))
  show ?thesis
    by (intro conjI)
       (fact eqs nums examples zero toString_path indexValue_decimal isDigit_decimal)+
qed

text \<open>The theorem at the index 4294967294, the greatest index of an array, and at -7.\<close>

theorem toString_format_witness:
  "numberToString (\<lambda>r. []) (Finite 4294967294) = ''4294967294''
   \<and> numberToString (\<lambda>r. []) (Finite (- 7)) = ''-7''
   \<and> indexValue ''4294967294'' = 4294967294"
proof -
  have d: "decimal 4294967294 = ''4294967294''" "decimal 7 = ''7''"
    by (simp_all add: decimal.simps digitChar_def)
  from toString_format [where host = "\<lambda>r. []" and n = 4294967294]
  have "numberToString (\<lambda>r. []) (Finite (of_nat 4294967294)) = decimal 4294967294"
    and "indexValue (decimal 4294967294) = int 4294967294"
    by simp_all
  moreover from toString_format [where host = "\<lambda>r. []" and n = 7]
  have "numberToString (\<lambda>r. []) (Finite (- of_nat 7)) = ''-'' @ decimal 7"
    by simp
  ultimately show ?thesis by (simp add: d)
qed

section \<open>Array\<close>

lemma arrayLoop_done: "length data \<le> index \<Longrightarrow> arrayLoop v data index values = Pass (NewArray values)"
  by (subst arrayLoop.simps) simp

lemma arrayLoop_step_Pass:
  "index < length data \<Longrightarrow> toResult v (data ! index) = Pass value \<Longrightarrow>
   arrayLoop v data index values = arrayLoop v data (Suc index) (values @ [value])"
  by (subst arrayLoop.simps) (simp add: run_def)

lemma arrayLoop_step_Fail:
  "index < length data \<Longrightarrow> toResult v (data ! index) = Fail reason \<Longrightarrow>
   arrayLoop v data index values = Fail (ProblemWithIndex (Finite (of_nat index)) reason)"
  by (subst arrayLoop.simps) (simp add: run_def)



lemma arrayLoop_Pass_D:
  "arrayLoop v data index values = Pass out \<Longrightarrow>
   \<exists>ys. out = NewArray (values @ ys) \<and> list_all2 (\<lambda>x y. toResult v x = Pass y) (drop index data) ys"
proof (induction n \<equiv> "length data - index" arbitrary: index "values")
  case 0
  then have "length data \<le> index" by simp
  with 0 show ?case by (simp add: arrayLoop_done)
next
  case (Suc n)
  then have lt: "index < length data" by simp
  then have d: "drop index data = data ! index # drop (Suc index) data"
    by (simp add: Cons_nth_drop_Suc)
  show ?case
  proof (cases "toResult v (data ! index)")
    case (Fail reason)
    with lt Suc.prems show ?thesis by (simp add: arrayLoop_step_Fail)
  next
    case (Pass y)
    with lt Suc.prems have "arrayLoop v data (Suc index) (values @ [y]) = Pass out"
      by (simp add: arrayLoop_step_Pass)
    moreover from Suc.hyps(2) have "n = length data - Suc index" by simp
    ultimately obtain ys where "out = NewArray ((values @ [y]) @ ys)"
      and "list_all2 (\<lambda>x y. toResult v x = Pass y) (drop (Suc index) data) ys"
      using Suc.hyps(1) by blast
    with Pass d have "out = NewArray (values @ (y # ys)) \<and>
        list_all2 (\<lambda>x y. toResult v x = Pass y) (drop index data) (y # ys)"
      by simp
    then show ?thesis by blast
  qed
qed





lemma expectingArray_Pass_D:
  "expectingArray v data = Pass out \<Longrightarrow>
   \<exists>xs ys. data = Array xs \<and> out = NewArray ys \<and> list_all2 (\<lambda>x y. toResult v x = Pass y) xs ys"
proof (cases data)
  case (Array xs)
  moreover assume "expectingArray v data = Pass out"
  ultimately have "arrayLoop v xs 0 [] = Pass out" by (simp add: expectingArray_def)
  from arrayLoop_Pass_D [OF this] Array show ?thesis by simp
qed (simp_all add: expectingArray_def)



section \<open>Object\<close>

lemma putOwn_fresh:
  "key \<notin> fst ` set ps \<Longrightarrow> putOwn ps key value = ps @ [(key, value)]"
  by (induction ps) auto

lemma setProp_fresh:
  "key \<noteq> ''__proto__'' \<Longrightarrow> key \<notin> fst ` set ps \<Longrightarrow>
   setProp (proto, ps) key value = (proto, ps @ [(key, value)])"
  by (simp add: putOwn_fresh)

lemma objectLoop_Pass:
  "list_all2 (\<lambda>(k, v) (k', y). k' = k \<and> toResult v (getProp data k) = Pass y) fs ps' \<Longrightarrow>
   distinct (map fst ps @ map fst fs) \<Longrightarrow> ''__proto__'' \<notin> fst ` set fs \<Longrightarrow>
   objectLoop data fs (proto, ps) = Pass (NewObject proto (ps @ ps'))"
proof (induction fs arbitrary: ps ps')
  case Nil
  then show ?case by simp
next
  case (Cons f fs)
  obtain k v where f: "f = (k, v)" by (cases f)
  with Cons.prems(1) obtain y qs where ps': "ps' = (k, y) # qs"
    and y: "toResult v (getProp data k) = Pass y"
    and rest: "list_all2 (\<lambda>(k, v) (k', y). k' = k \<and> toResult v (getProp data k) = Pass y) fs qs"
    by (auto simp: list_all2_Cons1)
  from Cons.prems(2) f have fresh: "k \<notin> fst ` set ps" by auto
  from Cons.prems(3) f have np: "k \<noteq> ''__proto__''" and np': "''__proto__'' \<notin> fst ` set fs"
    by auto
  from Cons.prems(2) f have "distinct (map fst (ps @ [(k, y)]) @ map fst fs)" by auto
  from Cons.IH [OF rest this np']
  have "objectLoop data fs (proto, ps @ [(k, y)]) = Pass (NewObject proto ((ps @ [(k, y)]) @ qs))" .
  with f y ps' fresh np show ?case by (simp add: run_def putOwn_fresh)
qed

lemma objectLoop_Fail:
  "list_all (\<lambda>(k', v'). worksWith v' (getProp data k')) pre \<Longrightarrow>
   toResult v (getProp data k) = Fail reason \<Longrightarrow>
   objectLoop data (pre @ (k, v) # post) obj = Fail (ProblemWithField k reason)"
proof (induction pre arbitrary: obj)
  case Nil
  then show ?case by (simp add: run_def)
next
  case (Cons f pre)
  obtain k' v' where f: "f = (k', v')" by (cases f)
  with Cons.prems obtain y where "toResult v' (getProp data k') = Pass y"
    by (auto simp: worksWith_iff)
  with f Cons show ?case by (simp add: run_def)
qed

lemma objectLoop_Pass_D:
  "objectLoop data fs (proto, ps) = Pass out \<Longrightarrow>
   distinct (map fst ps @ map fst fs) \<Longrightarrow> ''__proto__'' \<notin> fst ` set fs \<Longrightarrow>
   \<exists>ps'. out = NewObject proto (ps @ ps')
     \<and> list_all2 (\<lambda>(k, v) (k', y). k' = k \<and> toResult v (getProp data k) = Pass y) fs ps'"
proof (induction fs arbitrary: ps)
  case Nil
  then show ?case by simp
next
  case (Cons f fs)
  obtain k v where f: "f = (k, v)" by (cases f)
  from Cons.prems(2) f have fresh: "k \<notin> fst ` set ps" by auto
  from Cons.prems(3) f have np: "k \<noteq> ''__proto__''" and np': "''__proto__'' \<notin> fst ` set fs"
    by auto
  show ?case
  proof (cases "toResult v (getProp data k)")
    case (Fail reason)
    with Cons.prems(1) f show ?thesis by (simp add: run_def)
  next
    case (Pass y)
    with Cons.prems(1) f fresh np
    have "objectLoop data fs (proto, ps @ [(k, y)]) = Pass out"
      by (simp add: run_def putOwn_fresh)
    moreover from Cons.prems(2) f have "distinct (map fst (ps @ [(k, y)]) @ map fst fs)" by auto
    ultimately obtain qs where "out = NewObject proto ((ps @ [(k, y)]) @ qs)"
      and "list_all2 (\<lambda>(k, v) (k', y). k' = k \<and> toResult v (getProp data k) = Pass y) fs qs"
      using Cons.IH np' by blast
    with Pass f have "out = NewObject proto (ps @ ((k, y) # qs)) \<and>
        list_all2 (\<lambda>(k, v) (k', y). k' = k \<and> toResult v (getProp data k) = Pass y)
          (f # fs) ((k, y) # qs)"
      by simp
    then show ?thesis by blast
  qed
qed

lemma objectLoop_not_Expectation: "objectLoop data fs obj \<noteq> Fail (Expectation expected actual)"
proof (induction fs arbitrary: obj)
  case Nil
  then show ?case by simp
next
  case (Cons f fs)
  obtain k v where "f = (k, v)" by (cases f)
  with Cons show ?case
    by (cases "toResult v (getProp data k)") (simp_all add: run_def)
qed

lemma worksWith_fields_list_all2:
  "list_all (\<lambda>(k, v). worksWith v (getProp data k)) fs \<Longrightarrow>
   \<exists>ps. list_all2 (\<lambda>(k, v) (k', y). k' = k \<and> toResult v (getProp data k) = Pass y) fs ps"
proof (induction fs)
  case Nil
  then show ?case by simp
next
  case (Cons f fs)
  obtain k v where f: "f = (k, v)" by (cases f)
  from Cons obtain ps where
    "list_all2 (\<lambda>(k, v) (k', y). k' = k \<and> toResult v (getProp data k) = Pass y) fs ps"
    by auto
  moreover from Cons.prems f obtain y where "toResult v (getProp data k) = Pass y"
    by (auto simp: worksWith_iff)
  ultimately have
    "list_all2 (\<lambda>(k, v) (k', y). k' = k \<and> toResult v (getProp data k) = Pass y) (f # fs) ((k, y) # ps)"
    using f by simp
  then show ?case ..
qed

lemma fields_values:
  assumes "list_all2 (\<lambda>(k, v) (k', y). k' = k \<and> toResult v (getProp data k) = Pass y) fs ps"
  shows "map fst ps = map fst fs"
    and "distinct (map fst fs) \<Longrightarrow> (k, v) \<in> set fs \<Longrightarrow>
         \<exists>y. map_of ps k = Some y \<and> toResult v (getProp data k) = Pass y"
proof -
  let ?R = "\<lambda>(k, v) (k', y). k' = k \<and> toResult v (getProp data k) = Pass y"
  from assms show keys: "map fst ps = map fst fs"
    by (induction rule: list_all2_induct) auto
  assume d: "distinct (map fst fs)" and mem: "(k, v) \<in> set fs"
  from assms mem obtain p where p: "p \<in> set ps" "?R (k, v) p"
    using list_all2_in_set1 [of ?R fs ps "(k, v)"] by blast
  then obtain y where py: "p = (k, y)" and y: "toResult v (getProp data k) = Pass y"
    by (cases p) auto
  from d keys have "distinct (map fst ps)" by simp
  with p(1) py have "map_of ps k = Some y" by (simp add: map_of_eq_Some_iff)
  with y show "\<exists>y. map_of ps k = Some y \<and> toResult v (getProp data k) = Pass y"
    by blast
qed

lemma set_forIn [simp]: "set (forIn fs) = set fs"
  by (auto simp: forIn_def)

lemma distinct_forIn: "distinct (map fst fs) \<Longrightarrow> distinct (map fst (forIn fs))"
proof -
  assume d: "distinct (map fst fs)"
  then have inj: "inj_on fst (set fs)" and dfs: "distinct fs"
    by (simp_all add: distinct_map)
  have "distinct (forIn fs)"
    using dfs by (auto simp: forIn_def)
  with inj show ?thesis by (simp add: distinct_map)
qed

lemma forIn_no_index: "list_all (\<lambda>(k, v). \<not> isArrayIndex k) fs \<Longrightarrow> forIn fs = fs"
proof -
  assume a: "list_all (\<lambda>(k, v). \<not> isArrayIndex k) fs"
  then have "filter (\<lambda>p. isArrayIndex (fst p)) fs = []"
    by (auto simp: filter_empty_conv list_all_iff)
  moreover from a have "filter (\<lambda>p. \<not> isArrayIndex (fst p)) fs = fs"
    by (auto simp: filter_id_conv list_all_iff)
  ultimately show ?thesis by (simp add: forIn_def)
qed

lemma insort_key_map:
  "map g (insort_key (\<lambda>x. f (g x)) x xs) = insort_key f (g x) (map g xs)"
  by (induction xs) simp_all

lemma sort_key_map: "map g (sort_key (\<lambda>x. f (g x)) xs) = sort_key f (map g xs)"
  by (induction xs) (simp_all add: insort_key_map)

lemma forIn_map:
  "forIn (map (\<lambda>(k, e). (k, g e)) fs) = map (\<lambda>(k, e). (k, g e)) (forIn fs)"
proof -
  let ?g = "\<lambda>(k, e). (k, g e)"
  have fst: "fst (?g p) = fst p" for p by (cases p) simp
  have "sort_key (\<lambda>p. indexValue (fst p)) (map ?g (filter (\<lambda>p. isArrayIndex (fst p)) fs))
      = map ?g (sort_key (\<lambda>p. indexValue (fst (?g p))) (filter (\<lambda>p. isArrayIndex (fst p)) fs))"
    by (rule sort_key_map [symmetric])
  then show ?thesis
    by (simp add: forIn_def filter_map comp_def fst)
qed

lemma expectingObject_guard:
  "typeof data = ''object'' \<Longrightarrow> data \<noteq> Null \<Longrightarrow>
   expectingObject fields data = objectLoop data (forIn fields) (Val ObjectPrototype, [])"
  by (simp add: expectingObject_def)

lemma getProp_absent:
  "k \<notin> fst ` set props \<Longrightarrow> getProp (Object props) k = getObjectPrototype k (Object props)"
  by (simp add: map_of_eq_None_iff [THEN iffD2])

text \<open>
  Claim C1. The claim is that \<^verbatim>\<open>object(F)\<close> fails on every array with the expectation of
  an object that got an array. The guard of \<^verbatim>\<open>expectingObject\<close> tests \<^verbatim>\<open>typeof\<close>, which is
  \<^verbatim>\<open>"object"\<close> for an array, so an array goes on to the field loop: the result on an array
  is the result of the loop and never that expectation. With no declared field every array
  passes with the empty object, and \<^verbatim>\<open>object({length: number})\<close> passes on \<^verbatim>\<open>[true]\<close>.
\<close>

theorem object_validator_accepts_array:
  "Utils_typeOf (Array xs) = ''array''
   \<and> toResult (Expect_object fields) (Array xs)
       = objectLoop (Array xs) (forIn fields) (Val ObjectPrototype, [])
   \<and> toResult (Expect_object fields) (Array xs) \<noteq> Fail (Expectation ''object'' ''array'')
   \<and> toResult (Expect_object []) (Array xs) = Pass (NewObject (Val ObjectPrototype) [])
   \<and> toResult (Expect_object [(''length'', Expect_number)]) (Array [Boolean True])
       = Pass (NewObject (Val ObjectPrototype) [(''length'', Val (Number (Finite 1)))])"
  by (simp add: Utils_typeOf_def Expect_object_def expectingObject_def objectLoop_not_Expectation
      forIn_def isArrayIndex_examples run_def Expect_number_def expecting_def)

text \<open>
  Claim C3, amended. On a non-null object input, \<^verbatim>\<open>object(F)\<close> walks the declared fields
  in the order of \<^verbatim>\<open>for ... in\<close>: the names that are array indices first, in ascending
  numeric order, then the other names in declaration order. At the first field \<open>k\<close> of
  that order whose validator fails, it fails with the field problem of \<open>k\<close> around that
  validator's problem, whatever the fields after \<open>k\<close> are. When no declared name is an
  array index, the order is the declaration order.
\<close>

theorem object_validator_first_failure:
  assumes "forIn fields = pre @ (k, v) # post"
    and "list_all (\<lambda>(k', v'). worksWith v' (getProp (Object props) k')) pre"
    and "toResult v (getProp (Object props) k) = Fail reason"
  shows "toResult (Expect_object fields) (Object props) = Fail (ProblemWithField k reason)
    \<and> forIn fields =
        sort_key (\<lambda>p. indexValue (fst p)) (filter (\<lambda>p. isArrayIndex (fst p)) fields)
        @ filter (\<lambda>p. \<not> isArrayIndex (fst p)) fields
    \<and> (list_all (\<lambda>(k', v'). \<not> isArrayIndex k') fields \<longrightarrow> forIn fields = fields)"
proof (intro conjI)
  from assms show "toResult (Expect_object fields) (Object props) = Fail (ProblemWithField k reason)"
    by (simp add: Expect_object_def expectingObject_guard objectLoop_Fail)
  show "forIn fields =
        sort_key (\<lambda>p. indexValue (fst p)) (filter (\<lambda>p. isArrayIndex (fst p)) fields)
        @ filter (\<lambda>p. \<not> isArrayIndex (fst p)) fields"
    by (simp add: forIn_def)
  show "list_all (\<lambda>(k', v'). \<not> isArrayIndex k') fields \<longrightarrow> forIn fields = fields"
    by (simp add: forIn_no_index)
qed

text \<open>
  The theorem at the fields \<^verbatim>\<open>{a: string, b: string}\<close> and the input \<^verbatim>\<open>{a: 1, b: 2}\<close>,
  where the failure is reported on \<^verbatim>\<open>a\<close>, and at the fields
  \<^verbatim>\<open>{a: string, b: number, c: number}\<close> and the input \<^verbatim>\<open>{a: "x", c: "z"}\<close>, where the
  failure is reported on the missing \<^verbatim>\<open>b\<close>.
\<close>

theorem object_validator_first_failure_witness:
  "toResult (Expect_object [(''a'', Expect_string), (''b'', Expect_string)])
     (Object [(''a'', Number (Finite 1)), (''b'', Number (Finite 2))])
   = Fail (ProblemWithField ''a'' (Expectation ''string'' ''number''))
   \<and> forIn [(''a'', Expect_string), (''b'', Expect_string)]
       = [(''a'', Expect_string), (''b'', Expect_string)]
   \<and> toResult (Expect_object [(''a'', Expect_string), (''b'', Expect_number), (''c'', Expect_number)])
     (Object [(''a'', String ''x''), (''c'', String ''z'')])
   = Fail (ProblemWithField ''b'' (Expectation ''number'' ''undefined''))"
proof -
  let ?fields = "[(''a'', Expect_string), (''b'', Expect_string)]"
  let ?props = "[(''a'', Number (Finite 1)), (''b'', Number (Finite 2))]"
  have e: "forIn ?fields = [] @ (''a'', Expect_string) # [(''b'', Expect_string)]"
    by (simp add: forIn_def isArrayIndex_examples)
  have f: "toResult Expect_string (getProp (Object ?props) ''a'')
      = Fail (Expectation ''string'' ''number'')"
    by (simp add: Expect_string_def expecting_def Utils_typeOf_def)
  have p: "list_all (\<lambda>(k', v'). worksWith v' (getProp (Object ?props) k')) []"
    by simp
  from object_validator_first_failure [OF e p f]
  have first: "toResult (Expect_object ?fields) (Object ?props)
      = Fail (ProblemWithField ''a'' (Expectation ''string'' ''number''))
    \<and> forIn ?fields = ?fields"
    by (simp add: isArrayIndex_examples)
  let ?fields' = "[(''a'', Expect_string), (''b'', Expect_number), (''c'', Expect_number)]"
  let ?props' = "[(''a'', String ''x''), (''c'', String ''z'')]"
  have e': "forIn ?fields' = [(''a'', Expect_string)] @ (''b'', Expect_number) # [(''c'', Expect_number)]"
    by (simp add: forIn_def isArrayIndex_examples)
  have f': "toResult Expect_number (getProp (Object ?props') ''b'')
      = Fail (Expectation ''number'' ''undefined'')"
    by (simp add: Expect_number_def expecting_def Utils_typeOf_def getObjectPrototype_def
        ObjectPrototype_methods_def)
  have p': "list_all (\<lambda>(k', v'). worksWith v' (getProp (Object ?props') k')) [(''a'', Expect_string)]"
    by (simp add: worksWith_def Expect_string_def expecting_def)
  from object_validator_first_failure [OF e' p' f']
  have "toResult (Expect_object ?fields') (Object ?props')
      = Fail (ProblemWithField ''b'' (Expectation ''number'' ''undefined''))"
    by blast
  with first show ?thesis by simp
qed

text \<open>
  The fields \<^verbatim>\<open>{b: string, 1: string}\<close> against \<^verbatim>\<open>{b: 1, 1: true}\<close>: the first declared
  field \<^verbatim>\<open>b\<close> fails, and yet the failure is reported on \<^verbatim>\<open>1\<close>, which the enumeration
  visits first.
\<close>

theorem object_validator_declaration_order_counterexample:
  "toResult Expect_string
      (getProp (Object [(''b'', Number (Finite 1)), (''1'', Boolean True)]) ''b'')
     = Fail (Expectation ''string'' ''number'')
   \<and> toResult (Expect_object [(''b'', Expect_string), (''1'', Expect_string)])
        (Object [(''b'', Number (Finite 1)), (''1'', Boolean True)])
     = Fail (ProblemWithField ''1'' (Expectation ''string'' ''boolean''))
   \<and> toResult (Expect_object [(''b'', Expect_string), (''1'', Expect_string)])
        (Object [(''b'', Number (Finite 1)), (''1'', Boolean True)])
     \<noteq> Fail (ProblemWithField ''b'' (Expectation ''string'' ''number''))"
  by (simp add: Expect_object_def expectingObject_def forIn_def isArrayIndex_examples
      Expect_string_def expecting_def Utils_typeOf_def run_def)

text \<open>
  Claim C4, amended. For a descriptor that does not declare the name \<^verbatim>\<open>__proto__\<close>, and on
  an object input on which the validator of every declared field passes, \<^verbatim>\<open>object(F)\<close>
  passes with a newly built plain object whose keys are exactly the declared names, each
  once, in the order of the enumeration, and each mapped to the validated value of its
  field. A key of the input that is not declared is therefore not a key of the output. A
  declared key that the input does not hold feeds its validator the member of that name
  that the input inherits from \<^verbatim>\<open>Object.prototype\<close>, a function, when there is one, and
  \<^verbatim>\<open>undefined\<close> otherwise. The declared names are distinct, as the keys of an object are.
\<close>

theorem object_validator_all_fields_pass:
  assumes "distinct (map fst fields)"
    and "''__proto__'' \<notin> set (map fst fields)"
    and "list_all (\<lambda>(k, v). worksWith v (getProp (Object props) k)) fields"
  shows "\<exists>obj. toResult (Expect_object fields) (Object props)
                = Pass (NewObject (Val ObjectPrototype) obj)
    \<and> map fst obj = map fst (forIn fields)
    \<and> set (map fst obj) = set (map fst fields)
    \<and> distinct (map fst obj)
    \<and> list_all (\<lambda>(k, v). \<exists>y. map_of obj k = Some y
                    \<and> toResult v (getProp (Object props) k) = Pass y) fields
    \<and> list_all (\<lambda>(k, v). k \<notin> fst ` set props \<longrightarrow>
          (\<exists>y. map_of obj k = Some y
             \<and> toResult v (if k \<in> set ObjectPrototype_methods
                            then Function (''Object.prototype.'' @ k) else Undefined) = Pass y))
        fields"
proof -
  let ?data = "Object props"
  let ?R = "\<lambda>(k, v) (k', y). k' = k \<and> toResult v (getProp ?data k) = Pass y"
  from assms(3) have "list_all (\<lambda>(k, v). worksWith v (getProp ?data k)) (forIn fields)"
    by (simp add: list_all_iff)
  then obtain obj where obj: "list_all2 ?R (forIn fields) obj"
    using worksWith_fields_list_all2 by blast
  from assms(1) have d: "distinct (map fst (forIn fields))" by (rule distinct_forIn)
  from assms(2) have np: "''__proto__'' \<notin> fst ` set (forIn fields)" by simp
  from d have "distinct (map fst [] @ map fst (forIn fields))" by simp
  from objectLoop_Pass [OF obj this np]
  have "objectLoop ?data (forIn fields) (Val ObjectPrototype, [])
      = Pass (NewObject (Val ObjectPrototype) ([] @ obj))" .
  then have res: "toResult (Expect_object fields) ?data = Pass (NewObject (Val ObjectPrototype) obj)"
    by (simp add: Expect_object_def expectingObject_guard)
  from obj have keys: "map fst obj = map fst (forIn fields)"
    by (rule fields_values(1))
  have keyset: "set (map fst obj) = set (map fst fields)"
    by (simp add: keys)
  from d keys have dist: "distinct (map fst obj)" by simp
  have val: "\<exists>y. map_of obj k = Some y \<and> toResult v (getProp ?data k) = Pass y"
    if "(k, v) \<in> set fields" for k v
    using fields_values(2) [OF obj d, of k v] that by simp
  then have vals:
    "list_all (\<lambda>(k, v). \<exists>y. map_of obj k = Some y \<and> toResult v (getProp ?data k) = Pass y) fields"
    unfolding list_all_iff by blast
  have "\<exists>y. map_of obj k = Some y
        \<and> toResult v (if k \<in> set ObjectPrototype_methods
                       then Function (''Object.prototype.'' @ k) else Undefined) = Pass y"
    if mem: "(k, v) \<in> set fields" and abs: "k \<notin> fst ` set props" for k v
  proof -
    from mem assms(2) have "k \<noteq> ''__proto__''" by force
    then have "getObjectPrototype k ?data =
        (if k \<in> set ObjectPrototype_methods
         then Function (''Object.prototype.'' @ k) else Undefined)"
      by (simp add: getObjectPrototype_def)
    with getProp_absent [OF abs] have "getProp ?data k =
        (if k \<in> set ObjectPrototype_methods
         then Function (''Object.prototype.'' @ k) else Undefined)"
      by (simp only:)
    with val [OF mem] show ?thesis by simp
  qed
  then have absent: "list_all (\<lambda>(k, v). k \<notin> fst ` set props \<longrightarrow>
          (\<exists>y. map_of obj k = Some y
             \<and> toResult v (if k \<in> set ObjectPrototype_methods
                            then Function (''Object.prototype.'' @ k) else Undefined) = Pass y))
        fields"
    unfolding list_all_iff by blast
  from res keys keyset dist vals absent show ?thesis by blast
qed

text \<open>
  The theorem at the fields \<^verbatim>\<open>{a: string, b: number}\<close> and the input
  \<^verbatim>\<open>{a: "x", b: 1, c: true}\<close>, where the output is \<^verbatim>\<open>{a: "x", b: 1}\<close>, and at the
  fields \<^verbatim>\<open>{a: string, b: optional(number)}\<close> and the input \<^verbatim>\<open>{a: "x", c: true}\<close>, where
  the absent key \<^verbatim>\<open>b\<close> is validated as \<^verbatim>\<open>undefined\<close>, and at the fields
  \<^verbatim>\<open>{toString: optional(string)}\<close> and the input \<^verbatim>\<open>{}\<close>, where the absent key feeds the
  inherited function to its validator.
\<close>

theorem object_validator_all_fields_pass_witness:
  "toResult (Expect_object [(''a'', Expect_string), (''b'', Expect_number)])
     (Object [(''a'', String ''x''), (''b'', Number (Finite 1)), (''c'', Boolean True)])
   = Pass (NewObject (Val ObjectPrototype)
            [(''a'', Val (String ''x'')), (''b'', Val (Number (Finite 1)))])
   \<and> toResult (Expect_object [(''a'', Expect_string), (''b'', Expect_optional Expect_number)])
     (Object [(''a'', String ''x''), (''c'', Boolean True)])
   = Pass (NewObject (Val ObjectPrototype) [(''a'', Val (String ''x'')), (''b'', Val Undefined)])
   \<and> toResult (Expect_optional Expect_string) (Function ''Object.prototype.toString'')
       = Pass (Val Undefined)
   \<and> toResult (Expect_object [(''toString'', Expect_optional Expect_string)]) (Object [])
       = Pass (NewObject (Val ObjectPrototype) [(''toString'', Val Undefined)])"
proof -
  have s: "toResult Expect_string (String ''x'') = Pass (Val (String ''x''))"
    and n: "toResult Expect_number (Number (Finite 1)) = Pass (Val (Number (Finite 1)))"
    and u: "toResult (Expect_optional Expect_number) Undefined = Pass (Val Undefined)"
    by (simp_all add: Expect_string_def Expect_number_def Expect_optional_def expecting_def
        expectingOptional_def run_def)
  have m: "''b'' \<notin> set ObjectPrototype_methods"
    by (simp add: ObjectPrototype_methods_def)
  let ?fields = "[(''a'', Expect_string), (''b'', Expect_number)]"
  let ?props = "[(''a'', String ''x''), (''b'', Number (Finite 1)), (''c'', Boolean True)]"
  have "distinct (map fst ?fields)" and "''__proto__'' \<notin> set (map fst ?fields)"
    and "list_all (\<lambda>(k, v). worksWith v (getProp (Object ?props) k)) ?fields"
    by (simp_all add: worksWith_iff s n)
  from object_validator_all_fields_pass [OF this] obtain obj where
    r: "toResult (Expect_object ?fields) (Object ?props) = Pass (NewObject (Val ObjectPrototype) obj)"
    and k: "map fst obj = map fst (forIn ?fields)"
    and v: "list_all (\<lambda>(k, v). \<exists>y. map_of obj k = Some y
              \<and> toResult v (getProp (Object ?props) k) = Pass y) ?fields"
    by blast
  from k obtain y1 y2 where obj: "obj = [(''a'', y1), (''b'', y2)]"
    by (auto simp: forIn_def isArrayIndex_examples map_eq_Cons_conv)
  with v s n have "y1 = Val (String ''x'')" "y2 = Val (Number (Finite 1))" by simp_all
  with r obj have first: "toResult (Expect_object ?fields) (Object ?props)
      = Pass (NewObject (Val ObjectPrototype)
               [(''a'', Val (String ''x'')), (''b'', Val (Number (Finite 1)))])"
    by simp
  let ?fields' = "[(''a'', Expect_string), (''b'', Expect_optional Expect_number)]"
  let ?props' = "[(''a'', String ''x''), (''c'', Boolean True)]"
  have g: "getProp (Object ?props') ''b'' = Undefined"
    by (simp add: getObjectPrototype_def m)
  have "distinct (map fst ?fields')" and "''__proto__'' \<notin> set (map fst ?fields')"
    and "list_all (\<lambda>(k, v). worksWith v (getProp (Object ?props') k)) ?fields'"
    using g by (simp_all add: worksWith_iff s u)
  from object_validator_all_fields_pass [OF this] obtain obj' where
    r': "toResult (Expect_object ?fields') (Object ?props')
          = Pass (NewObject (Val ObjectPrototype) obj')"
    and k': "map fst obj' = map fst (forIn ?fields')"
    and a': "list_all (\<lambda>(k, v). k \<notin> fst ` set ?props' \<longrightarrow>
          (\<exists>y. map_of obj' k = Some y
             \<and> toResult v (if k \<in> set ObjectPrototype_methods
                            then Function (''Object.prototype.'' @ k) else Undefined) = Pass y))
        ?fields'"
    and v': "list_all (\<lambda>(k, v). \<exists>y. map_of obj' k = Some y
              \<and> toResult v (getProp (Object ?props') k) = Pass y) ?fields'"
    by blast
  from k' obtain z1 z2 where obj': "obj' = [(''a'', z1), (''b'', z2)]"
    by (auto simp: forIn_def isArrayIndex_examples map_eq_Cons_conv)
  with v' s have "z1 = Val (String ''x'')" by simp
  moreover from obj' a' u m have "z2 = Val Undefined" by simp
  ultimately have second: "toResult (Expect_object ?fields') (Object ?props')
      = Pass (NewObject (Val ObjectPrototype) [(''a'', Val (String ''x'')), (''b'', Val Undefined)])"
    using r' obj' by simp
  let ?fields'' = "[(''toString'', Expect_optional Expect_string)]"
  have t: "toResult (Expect_optional Expect_string) (Function ''Object.prototype.toString'')
      = Pass (Val Undefined)"
    by (simp add: Expect_optional_def Expect_string_def expectingOptional_def expecting_def
        run_def)
  have mt: "''toString'' \<in> set ObjectPrototype_methods"
    by (simp add: ObjectPrototype_methods_def)
  have gt: "getProp (Object []) ''toString'' = Function ''Object.prototype.toString''"
    by (simp add: getObjectPrototype_def mt)
  have "distinct (map fst ?fields'')" and "''__proto__'' \<notin> set (map fst ?fields'')"
    and "list_all (\<lambda>(k, v). worksWith v (getProp (Object []) k)) ?fields''"
    using gt by (simp_all add: worksWith_iff t)
  from object_validator_all_fields_pass [OF this] obtain obj'' where
    r'': "toResult (Expect_object ?fields'') (Object [])
          = Pass (NewObject (Val ObjectPrototype) obj'')"
    and k'': "map fst obj'' = map fst (forIn ?fields'')"
    and a'': "list_all (\<lambda>(k, v). k \<notin> fst ` set ([] :: (string \<times> jsval) list) \<longrightarrow>
          (\<exists>y. map_of obj'' k = Some y
             \<and> toResult v (if k \<in> set ObjectPrototype_methods
                            then Function (''Object.prototype.'' @ k) else Undefined) = Pass y))
        ?fields''"
    by blast
  have nt: "\<not> isArrayIndex ''toString''"
    by (simp add: isArrayIndex_def isDigit_def)
  from k'' obtain w where obj'': "obj'' = [(''toString'', w)]"
    by (auto simp: forIn_def nt map_eq_Cons_conv)
  with a'' t mt have "w = Val Undefined" by simp
  with r'' obj'' have "toResult (Expect_object ?fields'') (Object [])
      = Pass (NewObject (Val ObjectPrototype) [(''toString'', Val Undefined)])"
    by simp
  with first second t show ?thesis by simp
qed

text \<open>
  Three inputs on which the claim as stated fails. A descriptor whose one own key is
  \<^verbatim>\<open>__proto__\<close>, declared with \<^verbatim>\<open>string\<close>, on an input whose own key \<^verbatim>\<open>__proto__\<close> holds
  \<^verbatim>\<open>"x"\<close> (as \<^verbatim>\<open>JSON.parse\<close> builds them): the declared field passes, and the output has
  no key at all. A descriptor whose one own key is \<^verbatim>\<open>__proto__\<close>, declared with
  \<^verbatim>\<open>object({})\<close>, on \<^verbatim>\<open>{}\<close>: the declared key is absent, its validator fails on
  \<^verbatim>\<open>undefined\<close>, and yet it passes, being fed \<^verbatim>\<open>Object.prototype\<close>; the output has no
  key, and its prototype is the validated value. The fields \<^verbatim>\<open>{constructor: string}\<close> on
  \<^verbatim>\<open>{}\<close>: the absent key feeds a function to its validator.
\<close>

theorem object_validator_inherited_counterexample:
  "worksWith Expect_string (getProp (Object [(''__proto__'', String ''x'')]) ''__proto__'')
   \<and> toResult (Expect_object [(''__proto__'', Expect_string)])
        (Object [(''__proto__'', String ''x'')])
      = Pass (NewObject (Val ObjectPrototype) [])
   \<and> \<not> worksWith (Expect_object []) Undefined
   \<and> getProp (Object []) ''__proto__'' = ObjectPrototype
   \<and> toResult (Expect_object [(''__proto__'', Expect_object [])]) (Object [])
      = Pass (NewObject (NewObject (Val ObjectPrototype) []) [])
   \<and> getProp (Object []) ''constructor'' = Function ''Object.prototype.constructor''
   \<and> toResult (Expect_object [(''constructor'', Expect_string)]) (Object [])
      = Fail (ProblemWithField ''constructor'' (Expectation ''string'' ''function''))"
  by (simp add: worksWith_def Expect_object_def expectingObject_def forIn_def
      isArrayIndex_examples Expect_string_def expecting_def Utils_typeOf_def run_def
      getObjectPrototype_def ObjectPrototype_methods_def)

section \<open>Round trip\<close>

lemma map_fst_mapped: "map fst (map (\<lambda>(k, e). (k, g e)) xs) = map fst xs"
  by (induction xs) auto

lemma validatorOf_accepted:
  "wellFormed e \<Longrightarrow> toResult (validatorOf e) data = Pass out \<Longrightarrow> accepted e out data"
proof (induction e arbitrary: data out)
  case EBoolean
  then show ?case
    using primitive_Pass_D(1) [of "''boolean''" data out] by (simp add: Expect_boolean_def)
next
  case ENumber
  then show ?case
    using primitive_Pass_D(1) [of "''number''" data out] by (simp add: Expect_number_def)
next
  case EString
  then show ?case
    using primitive_Pass_D(1) [of "''string''" data out] by (simp add: Expect_string_def)
next
  case ENull
  then show ?case
    using primitive_Pass_D(2) [of data out] by (simp add: Expect_null_def)
next
  case (EObject fs)
  let ?fields = "map (\<lambda>(k, e). (k, validatorOf e)) fs"
  from EObject.prems(1) have d: "distinct (map fst fs)"
    and np: "''__proto__'' \<notin> set (map fst fs)"
    and wf: "\<And>k e. (k, e) \<in> set fs \<Longrightarrow> wellFormed e"
    by (auto simp: list_all_iff)
  have keys: "map fst ?fields = map fst fs"
    by (rule map_fst_mapped)
  from EObject.prems(2) have res: "expectingObject ?fields data = Pass out"
    by (simp add: Expect_object_def)
  then have g: "typeof data = ''object''" "data \<noteq> Null"
    by (auto simp: expectingObject_def split: if_splits)
  with res have loop: "objectLoop data (forIn ?fields) (Val ObjectPrototype, []) = Pass out"
    by (simp add: expectingObject_guard)
  from d keys have "distinct (map fst ?fields)" by (simp only:)
  then have d': "distinct (map fst (forIn ?fields))" by (rule distinct_forIn)
  then have d'': "distinct (map fst [] @ map fst (forIn ?fields))" by simp
  have "fst ` set (forIn ?fields) = set (map fst ?fields)"
    by (simp only: set_forIn set_map)
  with np keys have np': "''__proto__'' \<notin> fst ` set (forIn ?fields)"
    by (simp only: not_False_eq_True)
  from objectLoop_Pass_D [OF loop d'' np'] obtain ps where out: "out = NewObject (Val ObjectPrototype) ps"
    and vals: "list_all2 (\<lambda>(k, v) (k', y). k' = k \<and> toResult v (getProp data k) = Pass y)
                 (forIn ?fields) ps"
    by auto
  from fields_values(1) [OF vals] have "map fst ps = map fst (forIn ?fields)" .
  also have "\<dots> = map fst (forIn fs)"
    by (simp only: forIn_map map_fst_mapped)
  finally have pkeys: "map fst ps = map fst (forIn fs)" .
  have "case map_of ps k of Some y \<Rightarrow> accepted e y (getProp data k) | None \<Rightarrow> False"
    if mem: "(k, e) \<in> set fs" for k e
  proof -
    from mem have "(\<lambda>(k, e). (k, validatorOf e)) (k, e) \<in> set ?fields"
      unfolding set_map by (rule imageI)
    then have "(k, validatorOf e) \<in> set (forIn ?fields)" by simp
    from fields_values(2) [OF vals d' this] obtain y where
      y: "map_of ps k = Some y" "toResult (validatorOf e) (getProp data k) = Pass y"
      by blast
    from mem have "accepted e y (getProp data k)"
      by (intro EObject.IH [of "(k, e)" e]) (simp_all add: wf y)
    with y show ?thesis by simp
  qed
  then have "list_all (\<lambda>(k, e). case map_of ps k of
                                  Some y \<Rightarrow> accepted e y (getProp data k)
                                | None \<Rightarrow> False) fs"
    unfolding list_all_iff by blast
  with g out pkeys show ?case by (simp del: set_forIn)
next
  case (EArray e)
  then have "expectingArray (validatorOf e) data = Pass out"
    by (simp add: Expect_array_def)
  from expectingArray_Pass_D [OF this] obtain xs ys where
    dd: "data = Array xs" "out = NewArray ys"
    and l: "list_all2 (\<lambda>x y. toResult (validatorOf e) x = Pass y) xs ys"
    by blast
  from EArray.prems(1) have "wellFormed e" by simp
  with l have "list_all2 (accepted e) ys xs"
    by (intro list_all2_swap_imp [OF l]) (rule EArray.IH)
  with dd show ?case by simp
next
  case (EOptional e)
  from EOptional.prems(1) have wf: "wellFormed e" by simp
  show ?case
  proof (cases "toResult (validatorOf e) data")
    case (Pass y)
    with EOptional.prems(2) have "out = y"
      by (simp add: Expect_optional_def expectingOptional_def run_def)
    with Pass EOptional.IH [OF wf, of data y] show ?thesis
      by (simp add: worksWith_iff)
  next
    case (Fail reason)
    with EOptional.prems(2) have "out = Val Undefined"
      by (simp add: Expect_optional_def expectingOptional_def run_def)
    with Fail show ?thesis by (simp add: worksWith_iff)
  qed
qed

lemma returnsInput_erase:
  "returnsInput e \<Longrightarrow> toResult (validatorOf e) data = Pass out \<Longrightarrow> erase out = data"
proof (induction e arbitrary: data out)
  case (EArray e)
  then have "expectingArray (validatorOf e) data = Pass out"
    by (simp add: Expect_array_def)
  from expectingArray_Pass_D [OF this] obtain xs ys where
    d: "data = Array xs" "out = NewArray ys"
    and l: "list_all2 (\<lambda>x y. toResult (validatorOf e) x = Pass y) xs ys"
    by blast
  from l have "list_all2 (\<lambda>y x. erase y = x) ys xs"
    by (rule list_all2_swap_imp) (use EArray in auto)
  then have "map erase ys = xs"
    by (induction rule: list_all2_induct) auto
  with d show ?case by simp
qed (auto simp: Expect_boolean_def Expect_number_def Expect_string_def Expect_null_def
      dest: primitive_Pass_D)

text \<open>
  Claim C8, amended. For every validator built from the factory whose descriptors do not
  declare the name \<^verbatim>\<open>__proto__\<close>, and every input it accepts, the output is the accepted
  substructure of the input, where \<^verbatim>\<open>optional(v)\<close> contributes the substructure that \<^verbatim>\<open>v\<close>
  accepts when \<^verbatim>\<open>v\<close> passes and \<^verbatim>\<open>undefined\<close> when \<^verbatim>\<open>v\<close> rejects. A passing primitive
  returns the input itself. A passing object validator returns a new object whose keys are
  exactly the declared names, each holding the accepted substructure of what the input
  reads under that name. A passing array validator returns a new array of the length of
  the input, each element the accepted substructure of the input's element at the same
  index. A validator made of primitives and arrays of them returns the structure of the
  input whole.
\<close>

theorem factory_roundtrip:
  assumes "wellFormed e" and "toResult (validatorOf e) data = Pass out"
  shows "accepted e out data
    \<and> (e = EBoolean \<or> e = ENumber \<or> e = EString \<or> e = ENull \<longrightarrow> out = Val data)
    \<and> (returnsInput e \<longrightarrow> erase out = data)
    \<and> (\<forall>fields. e = EObject fields \<longrightarrow>
         (\<exists>obj. out = NewObject (Val ObjectPrototype) obj
            \<and> map fst obj = map fst (forIn fields)
            \<and> list_all (\<lambda>(k, e'). \<exists>y. map_of obj k = Some y
                            \<and> accepted e' y (getProp data k)) fields))
    \<and> (\<forall>e'. e = EArray e' \<longrightarrow>
         (\<exists>xs ys. data = Array xs \<and> out = NewArray ys \<and> length ys = length xs
            \<and> list_all2 (accepted e') ys xs))
    \<and> (\<forall>e'. e = EOptional e' \<longrightarrow>
         (if worksWith (validatorOf e') data then accepted e' out data else out = Val Undefined))"
proof -
  from assms have acc: "accepted e out data" by (rule validatorOf_accepted)
  have prim: "e = EBoolean \<or> e = ENumber \<or> e = EString \<or> e = ENull \<longrightarrow> out = Val data"
    using acc by auto
  have whole: "returnsInput e \<longrightarrow> erase out = data"
    using assms(2) by (auto dest: returnsInput_erase)
  have obj: "\<exists>obj. out = NewObject (Val ObjectPrototype) obj
            \<and> map fst obj = map fst (forIn fields)
            \<and> list_all (\<lambda>(k, e'). \<exists>y. map_of obj k = Some y
                            \<and> accepted e' y (getProp data k)) fields"
    if "e = EObject fields" for fields
  proof -
    from acc that obtain ps where out: "out = NewObject (Val ObjectPrototype) ps"
      and keys: "map fst ps = map fst (forIn fields)"
      and vals: "list_all (\<lambda>(k, e). case map_of ps k of
                                  Some y \<Rightarrow> accepted e y (getProp data k)
                                | None \<Rightarrow> False) fields"
      by (cases out) auto
    from vals have "list_all (\<lambda>(k, e'). \<exists>y. map_of ps k = Some y
                            \<and> accepted e' y (getProp data k)) fields"
      by (auto simp: list_all_iff split: option.splits)
    with out keys show ?thesis by blast
  qed
  have arr: "\<exists>xs ys. data = Array xs \<and> out = NewArray ys \<and> length ys = length xs
            \<and> list_all2 (accepted e') ys xs" if "e = EArray e'" for e'
  proof -
    from acc that obtain xs ys where "data = Array xs" "out = NewArray ys"
      "list_all2 (accepted e') ys xs"
      by (cases out; cases data) auto
    then show ?thesis by (auto dest: list_all2_lengthD)
  qed
  have opt: "if worksWith (validatorOf e') data then accepted e' out data else out = Val Undefined"
    if "e = EOptional e'" for e'
    using acc that by simp
  from acc prim whole obj arr opt show ?thesis by blast
qed

text \<open>
  The theorem at \<^verbatim>\<open>object({a: string, b: array(optional(number))})\<close> and the input
  \<^verbatim>\<open>{a: "x", b: [1, "y"], c: true}\<close>, and at \<^verbatim>\<open>array(array(number))\<close> and the input
  \<^verbatim>\<open>[[1], []]\<close>.
\<close>

theorem factory_roundtrip_witness:
  "toResult (validatorOf (EObject [(''a'', EString), (''b'', EArray (EOptional ENumber))]))
     (Object [(''a'', String ''x''), (''b'', Array [Number (Finite 1), String ''y'']),
              (''c'', Boolean True)])
   = Pass (NewObject (Val ObjectPrototype)
       [(''a'', Val (String ''x'')), (''b'', NewArray [Val (Number (Finite 1)), Val Undefined])])
   \<and> accepted (EObject [(''a'', EString), (''b'', EArray (EOptional ENumber))])
       (NewObject (Val ObjectPrototype)
         [(''a'', Val (String ''x'')), (''b'', NewArray [Val (Number (Finite 1)), Val Undefined])])
       (Object [(''a'', String ''x''), (''b'', Array [Number (Finite 1), String ''y'']),
                (''c'', Boolean True)])
   \<and> toResult (validatorOf (EArray (EArray ENumber))) (Array [Array [Number (Finite 1)], Array []])
       = Pass (NewArray [NewArray [Val (Number (Finite 1))], NewArray []])
   \<and> erase (NewArray [NewArray [Val (Number (Finite 1))], NewArray []])
       = Array [Array [Number (Finite 1)], Array []]"
proof -
  let ?e = "EObject [(''a'', EString), (''b'', EArray (EOptional ENumber))]"
  let ?data = "Object [(''a'', String ''x''), (''b'', Array [Number (Finite 1), String ''y'']),
              (''c'', Boolean True)]"
  let ?out = "NewObject (Val ObjectPrototype)
       [(''a'', Val (String ''x'')), (''b'', NewArray [Val (Number (Finite 1)), Val Undefined])]"
  have wf: "wellFormed ?e" by simp
  have r: "toResult (validatorOf ?e) ?data = Pass ?out"
    by (simp add: Expect_object_def Expect_array_def Expect_optional_def Expect_string_def
        Expect_number_def expectingObject_def expectingArray_def expectingOptional_def
        expecting_def run_def forIn_def isArrayIndex_examples arrayLoop.simps Utils_typeOf_def)
  from factory_roundtrip [OF wf r] have a: "accepted ?e ?out ?data" by blast
  let ?e' = "EArray (EArray ENumber)"
  let ?data' = "Array [Array [Number (Finite 1)], Array []]"
  let ?out' = "NewArray [NewArray [Val (Number (Finite 1))], NewArray []]"
  have wf': "wellFormed ?e'" by simp
  have r': "toResult (validatorOf ?e') ?data' = Pass ?out'"
    by (simp add: Expect_array_def Expect_number_def expectingArray_def expecting_def run_def
        arrayLoop.simps)
  from factory_roundtrip [OF wf' r'] have "returnsInput ?e' \<longrightarrow> erase ?out' = ?data'" by blast
  then have "erase ?out' = ?data'" by simp
  with r a r' show ?thesis by blast
qed

text \<open>
  \<^verbatim>\<open>array(optional(number))\<close> accepts \<^verbatim>\<open>["a"]\<close> and returns \<^verbatim>\<open>[undefined]\<close>: the
  element of the output is not the element of the input. And the object validator of a
  descriptor whose one own key is \<^verbatim>\<open>__proto__\<close>, declared with \<^verbatim>\<open>string\<close>, accepts an
  input whose own key \<^verbatim>\<open>__proto__\<close> holds \<^verbatim>\<open>"x"\<close> and returns an object without the
  declared field.
\<close>

theorem factory_roundtrip_counterexample:
  "toResult (validatorOf (EArray (EOptional ENumber))) (Array [String ''a''])
     = Pass (NewArray [Val Undefined])
   \<and> erase (NewArray [Val Undefined]) \<noteq> Array [String ''a'']
   \<and> toResult (validatorOf (EObject [(''__proto__'', EString)]))
        (Object [(''__proto__'', String ''x'')])
     = Pass (NewObject (Val ObjectPrototype) [])"
  by (simp add: Expect_array_def Expect_optional_def Expect_number_def expectingArray_def
      expectingOptional_def expecting_def run_def arrayLoop.simps Utils_typeOf_def
      Expect_object_def Expect_string_def expectingObject_def forIn_def isArrayIndex_examples)

end
